theory Spec2Isabelle
  imports Main
begin

section \<open>JavaScript values, exceptions and iteration\<close>

text \<open>
  A \<^verbatim>\<open>Date\<close> instance, an object the \<^verbatim>\<open>Date\<close> constructor has made, is read
  only through \<^verbatim>\<open>instanceof Date\<close> and through subtraction, so it is
  represented by its time value in milliseconds: an integer,
  as for every date \<^verbatim>\<open>new Date()\<close> yields, or \<^verbatim>\<open>NaN\<close> for an Invalid Date
  such as \<^verbatim>\<open>new Date(NaN)\<close>, which is a \<^verbatim>\<open>Date\<close> instance all the same.
\<close>

datatype date = Date int | InvalidDate

text \<open>
  The values the code of \<^verbatim>\<open>lib/aggregator.js\<close> tells apart: \<^verbatim>\<open>undefined\<close>,
  \<^verbatim>\<open>null\<close>, booleans, numbers, \<^verbatim>\<open>NaN\<close>, strings, \<^verbatim>\<open>Date\<close> instances,
  functions and any other object.
\<close>

datatype js_value =
    JUndefined
  | JNull
  | JBoolean bool
  | JNumber int
  | JNaN
  | JString string
  | JDate date
  | JFunction
  | JObject

text \<open>What \<^verbatim>\<open>if (v)\<close> and \<^verbatim>\<open>!v\<close> test: every object is truthy.\<close>

fun truthy :: "js_value \<Rightarrow> bool" where
  "truthy JUndefined = False"
| "truthy JNull = False"
| "truthy (JBoolean b) = b"
| "truthy (JNumber n) = (n \<noteq> 0)"
| "truthy JNaN = False"
| "truthy (JString s) = (s \<noteq> [])"
| "truthy (JDate t) = True"
| "truthy JFunction = True"
| "truthy JObject = True"

text \<open>
  What the code throws: \<^verbatim>\<open>new Error(message)\<close> by its own \<^verbatim>\<open>throw\<close>
  statements, and the engine's \<^verbatim>\<open>TypeError\<close> for a property read on
  \<^verbatim>\<open>undefined\<close> or \<^verbatim>\<open>null\<close>, for a call of a property that is not a
  function, and for iterating a value that is not iterable.
\<close>

datatype error = TypeError | Error string

text \<open>
  \<^verbatim>\<open>for (const x of o) body\<close> begins with \<^verbatim>\<open>o[Symbol.iterator]()\<close>. An
  array hands out its elements in index order. An object created by the literal
  \<^verbatim>\<open>{}\<close> and filled by \<^verbatim>\<open>o[key] = value\<close> with string keys has no
  \<^verbatim>\<open>Symbol.iterator\<close> method, neither of its own nor inherited from
  \<^verbatim>\<open>Object.prototype\<close> or from a \<^verbatim>\<open>Data\<close> object: the loop throws a
  \<^verbatim>\<open>TypeError\<close> before the body runs once, whatever the object holds.
\<close>

datatype 'v js_iterable = PlainObject "string \<rightharpoonup> 'v" | Array "'v list"

fun for_of :: "'v js_iterable \<Rightarrow> ('v \<Rightarrow> 'acc \<Rightarrow> 'acc) \<Rightarrow> 'acc \<Rightarrow> error + 'acc" where
  "for_of (PlainObject obj) body acc = Inl TypeError"
| "for_of (Array xs) body acc = Inr (fold body xs acc)"

section \<open>Constants\<close>

definition ERROR :: js_value where
  "ERROR = JString ''error''"

definition SKIP :: js_value where
  "SKIP = JString ''skip''"

definition SUCCESS :: js_value where
  "SUCCESS = JString ''success''"

section \<open>Plain objects as dictionaries\<close>

text \<open>
  \<^verbatim>\<open>_suites\<close>, \<^verbatim>\<open>_tests\<close> and each record's \<^verbatim>\<open>hooks\<close> are objects created
  by \<^verbatim>\<open>{}\<close> and used through \<^verbatim>\<open>obj[key]\<close> with string keys. A read that finds
  no own property goes on to the object's prototype, at first
  \<^verbatim>\<open>Object.prototype\<close>, whose members are the eleven functions below and the
  accessor \<^verbatim>\<open>__proto__\<close>. A read of \<^verbatim>\<open>__proto__\<close> yields the object's
  prototype; an assignment of an object to \<^verbatim>\<open>__proto__\<close> creates no own property
  and makes the assigned object the prototype. So in the maps that represent these
  objects, the entry under the key \<^verbatim>\<open>__proto__\<close> is the prototype the code has
  assigned, if any, and every other entry is an own property.

  \<^verbatim>\<open>Object.prototype\<close> is shared by all objects, and \<^verbatim>\<open>addHookEnd\<close> can
  write a date to its property \<^verbatim>\<open>end\<close> (see there): the first argument of the
  reads below is the time value of that date, \<open>None\<close> while there is no such
  property.
\<close>

definition Object_prototype_methods :: "string list" where
  "Object_prototype_methods =
     [''constructor'', ''__defineGetter__'', ''__defineSetter__'', ''hasOwnProperty'',
      ''__lookupGetter__'', ''__lookupSetter__'', ''isPrototypeOf'', ''propertyIsEnumerable'',
      ''toString'', ''valueOf'', ''toLocaleString'']"


text \<open>
  The read of \<open>key\<close> that has reached \<^verbatim>\<open>Object.prototype\<close>, for an object whose
  prototype it is (so that \<^verbatim>\<open>__proto__\<close> yields \<^verbatim>\<open>Object.prototype\<close> itself).
\<close>

definition Object_prototype_get :: "int option \<Rightarrow> string \<Rightarrow> js_value" where
  "Object_prototype_get protoEnd key =
     (if key = ''__proto__'' then JObject
      else if key \<in> set Object_prototype_methods then JFunction
      else if key = ''end'' then (case protoEnd of None \<Rightarrow> JUndefined | Some t \<Rightarrow> JDate (Date t))
      else JUndefined)"

section \<open>Data: one entity's timing record\<close>

text \<open>
  A hook sub-record is the object \<^verbatim>\<open>{start: new Date()}\<close>, to which
  \<^verbatim>\<open>addHookEnd\<close> later adds \<^verbatim>\<open>end\<close>.
\<close>

record HookData =
  hook_start :: int
  hook_end :: "int option"

text \<open>
  The fields of \<^verbatim>\<open>function Data (start)\<close>. The constructor is private to the
  module and is only called with \<^verbatim>\<open>new Date()\<close>, so \<^verbatim>\<open>start\<close> is an integer
  time value; \<^verbatim>\<open>end\<close> is \<^verbatim>\<open>null\<close> (\<open>None\<close>) or the date
  \<^verbatim>\<open>setEndTime\<close> stored; \<^verbatim>\<open>hooks\<close> is a plain object keyed by hook uid;
  \<^verbatim>\<open>terminalState\<close> holds \<^verbatim>\<open>null\<close> or the value
  \<^verbatim>\<open>setTerminalState\<close> stored.
\<close>

record Data =
  start :: int
  end' :: "date option"
  hooks :: "string \<rightharpoonup> HookData"
  hookOrder :: "string list"
  terminalState :: js_value

definition Data_new :: "int \<Rightarrow> Data" where
  "Data_new s =
     \<lparr>start = s, end' = None, hooks = Map.empty, hookOrder = [], terminalState = JNull\<rparr>"

text \<open>A date minus a date is the difference of the time values, \<^verbatim>\<open>NaN\<close> if one is.\<close>

definition getDuration :: "Data \<Rightarrow> js_value" where
  "getDuration d =
     (case end' d of
        None \<Rightarrow> JNull
      | Some InvalidDate \<Rightarrow> JNaN
      | Some (Date e) \<Rightarrow> JNumber (e - start d))"

definition getIsError :: "Data \<Rightarrow> bool" where
  "getIsError d = (terminalState d = ERROR)"

definition getIsSkip :: "Data \<Rightarrow> bool" where
  "getIsSkip d = (terminalState d = SKIP)"

definition getIsSuccess :: "Data \<Rightarrow> bool" where
  "getIsSuccess d = (terminalState d = SUCCESS)"

text \<open>
  A method that mutates \<^verbatim>\<open>this\<close> returns the record as the call leaves it,
  with \<open>Some e\<close> when the call throws \<open>e\<close> and \<open>None\<close> when it returns.
  The \<^verbatim>\<open>switch\<close> compares with \<^verbatim>\<open>===\<close>.
\<close>

definition setTerminalState :: "js_value \<Rightarrow> Data \<Rightarrow> error option \<times> Data" where
  "setTerminalState state d =
     (if state = ERROR \<or> state = SKIP \<or> state = SUCCESS
      then (None, d\<lparr>terminalState := state\<rparr>)
      else (Some (Error ''state must be a valid terminalState''), d))"

text \<open>
  The first argument of the two hook methods is the clock: what \<^verbatim>\<open>new Date()\<close>
  reads. The assignment \<^verbatim>\<open>this.hooks[hookUID] = {...}\<close> never throws.
\<close>

definition addHookStart :: "int \<Rightarrow> string \<Rightarrow> Data \<Rightarrow> error option \<times> Data" where
  "addHookStart now hookUID d =
     (None, d\<lparr>hooks := (hooks d)(hookUID \<mapsto> \<lparr>hook_start = now, hook_end = None\<rparr>),
               hookOrder := hookOrder d @ [hookUID]\<rparr>)"

text \<open>
  What the read \<^verbatim>\<open>this.hooks[hookUID]\<close> finds: a sub-record (an own property,
  or under \<^verbatim>\<open>__proto__\<close> the sub-record that was made the prototype);
  \<^verbatim>\<open>Object.prototype\<close> itself (\<^verbatim>\<open>__proto__\<close>, no prototype assigned); another
  inherited object (a function of \<^verbatim>\<open>Object.prototype\<close>, the date under
  \<^verbatim>\<open>start\<close> or \<^verbatim>\<open>end\<close> of a sub-record that is the prototype, the date
  under \<^verbatim>\<open>end\<close> of \<^verbatim>\<open>Object.prototype\<close>); or \<^verbatim>\<open>undefined\<close>.
\<close>

datatype hook_read = SubRecord HookData | ObjectPrototype | InheritedObject | NoProperty

definition hooks_get :: "int option \<Rightarrow> (string \<rightharpoonup> HookData) \<Rightarrow> string \<Rightarrow> hook_read" where
  "hooks_get protoEnd hs key =
     (case hs key of
        Some h \<Rightarrow> SubRecord h
      | None \<Rightarrow>
          (case hs ''__proto__'' of
             None \<Rightarrow>
               if key = ''__proto__'' then ObjectPrototype
               else if truthy (Object_prototype_get protoEnd key) then InheritedObject
               else NoProperty
           | Some p \<Rightarrow>
               if key = ''start'' then InheritedObject
               else if key = ''end'' \<and> hook_end p \<noteq> None then InheritedObject
               else if truthy (Object_prototype_get protoEnd key) then InheritedObject
               else NoProperty))"

text \<open>
  \<^verbatim>\<open>this.hooks[hookUID].end = new Date()\<close> writes \<^verbatim>\<open>end\<close> on what the read
  finds and throws \<^verbatim>\<open>TypeError\<close> when that is \<^verbatim>\<open>undefined\<close>. Written on an
  inherited function or date, the property is never read again. Written on
  \<^verbatim>\<open>Object.prototype\<close>, it is inherited by every object without an \<^verbatim>\<open>end\<close>
  of its own: the method takes the time value of \<^verbatim>\<open>Object.prototype.end\<close> and
  returns it with the record.
\<close>

definition addHookEnd ::
    "int \<Rightarrow> string \<Rightarrow> int option \<Rightarrow> Data \<Rightarrow> error option \<times> Data \<times> int option" where
  "addHookEnd now hookUID protoEnd d =
     (case hooks_get protoEnd (hooks d) hookUID of
        SubRecord h \<Rightarrow>
          (None, d\<lparr>hooks := (hooks d)(hookUID \<mapsto> h\<lparr>hook_end := Some now\<rparr>)\<rparr>, protoEnd)
      | ObjectPrototype \<Rightarrow> (None, d, Some now)
      | InheritedObject \<Rightarrow> (None, d, protoEnd)
      | NoProperty \<Rightarrow> (Some TypeError, d, protoEnd))"

definition setEndTime :: "js_value \<Rightarrow> Data \<Rightarrow> error option \<times> Data" where
  "setEndTime v d =
     (case v of
        JDate t \<Rightarrow> (None, d\<lparr>end' := Some t\<rparr>)
      | _ \<Rightarrow> (Some (Error ''end must be an instanceof Date''), d))"

text \<open>
  A call of one of the four mutating methods, with \<^verbatim>\<open>Object.prototype.end\<close>
  before and after it, and a sequence of such calls on one record.
\<close>

datatype method_call =
    SetTerminalState js_value
  | AddHookStart int string
  | AddHookEnd int string
  | SetEndTime js_value

fun invoke :: "method_call \<Rightarrow> int option \<Rightarrow> Data \<Rightarrow> error option \<times> Data \<times> int option" where
  "invoke (SetTerminalState state) protoEnd d =
     (case setTerminalState state d of (e, d') \<Rightarrow> (e, d', protoEnd))"
| "invoke (AddHookStart now hookUID) protoEnd d =
     (case addHookStart now hookUID d of (e, d') \<Rightarrow> (e, d', protoEnd))"
| "invoke (AddHookEnd now hookUID) protoEnd d = addHookEnd now hookUID protoEnd d"
| "invoke (SetEndTime v) protoEnd d =
     (case setEndTime v d of (e, d') \<Rightarrow> (e, d', protoEnd))"

definition invoke_all :: "method_call list \<Rightarrow> int option \<Rightarrow> Data \<Rightarrow> Data \<times> int option" where
  "invoke_all calls protoEnd d =
     foldl (\<lambda>(d, protoEnd) c. snd (invoke c protoEnd d)) (d, protoEnd) calls"

fun startedHooks :: "method_call list \<Rightarrow> string list" where
  "startedHooks [] = []"
| "startedHooks (AddHookStart now hookUID # calls) = hookUID # startedHooks calls"
| "startedHooks (_ # calls) = startedHooks calls"

text \<open>
  The members a \<^verbatim>\<open>Data\<close> object hands to an object whose prototype it is: its
  own fields, the methods and \<^verbatim>\<open>constructor\<close> of \<^verbatim>\<open>Data.prototype\<close>, and
  what \<^verbatim>\<open>Object.prototype\<close> has. Its own \<^verbatim>\<open>end\<close> hides that of
  \<^verbatim>\<open>Object.prototype\<close>.
\<close>

definition Data_prototype_methods :: "string list" where
  "Data_prototype_methods =
     [''getDuration'', ''getIsError'', ''getIsSkip'', ''getIsSuccess'', ''setTerminalState'',
      ''addHookStart'', ''addHookEnd'', ''setEndTime'']"

definition Data_get :: "int option \<Rightarrow> Data \<Rightarrow> string \<Rightarrow> js_value" where
  "Data_get protoEnd d key =
     (if key = ''start'' then JDate (Date (start d))
      else if key = ''end'' then (case end' d of None \<Rightarrow> JNull | Some t \<Rightarrow> JDate t)
      else if key = ''hooks'' then JObject
      else if key = ''hookOrder'' then JObject
      else if key = ''terminalState'' then terminalState d
      else if key \<in> set Data_prototype_methods then JFunction
      else Object_prototype_get protoEnd key)"

section \<open>Aggregator\<close>

text \<open>
  \<^verbatim>\<open>Data\<close> objects are shared by reference: the aggregator's two plain objects
  \<^verbatim>\<open>_suites\<close> and \<^verbatim>\<open>_tests\<close> map a uid to a reference, and the store maps
  a reference to the object's fields. \<open>nextRef\<close> is the next unused reference; an
  object is never freed. \<^verbatim>\<open>_start\<close> and \<^verbatim>\<open>_end\<close> are \<^verbatim>\<open>undefined\<close>
  (\<open>None\<close>) until their handler assigns a date. \<open>Object_prototype_end\<close> is the
  time value of the date under \<^verbatim>\<open>end\<close> of \<^verbatim>\<open>Object.prototype\<close>, \<open>None\<close>
  while that property does not exist, as in a fresh environment.
\<close>

type_synonym ref = nat

record Aggregator =
  agg_suites :: "string \<rightharpoonup> ref"
  agg_tests :: "string \<rightharpoonup> ref"
  agg_start :: "int option"
  agg_end :: "int option"

record world =
  self :: Aggregator
  heap :: "ref \<Rightarrow> Data"
  nextRef :: ref
  Object_prototype_end :: "int option"

definition Aggregator_new :: world where
  "Aggregator_new =
     \<lparr>self = \<lparr>agg_suites = Map.empty, agg_tests = Map.empty, agg_start = None, agg_end = None\<rparr>,
      heap = (\<lambda>r. Data_new 0),
      nextRef = 0,
      Object_prototype_end = None\<rparr>"

text \<open>\<^verbatim>\<open>new Data(new Date())\<close>: a fresh object in the store.\<close>

definition new_Data :: "int \<Rightarrow> world \<Rightarrow> ref \<times> world" where
  "new_Data now w =
     (nextRef w, w\<lparr>heap := (heap w)(nextRef w := Data_new now), nextRef := Suc (nextRef w)\<rparr>)"

text \<open>
  The read \<^verbatim>\<open>obj[key]\<close> on \<^verbatim>\<open>_suites\<close> or \<^verbatim>\<open>_tests\<close>: the record that was
  assigned under the key (for \<^verbatim>\<open>__proto__\<close>, the record that was made the
  prototype), or else the value found along the prototype chain, which is never one
  of the aggregator's records.
\<close>

datatype member = Record ref | Value js_value

definition lookup :: "int option \<Rightarrow> (ref \<Rightarrow> Data) \<Rightarrow> (string \<rightharpoonup> ref) \<Rightarrow> string \<Rightarrow> member" where
  "lookup protoEnd h obj key =
     (case obj key of
        Some r \<Rightarrow> Record r
      | None \<Rightarrow>
          (case obj ''__proto__'' of
             None \<Rightarrow> Value (Object_prototype_get protoEnd key)
           | Some p \<Rightarrow> Value (Data_get protoEnd (h p) key)))"

definition tests_get :: "world \<Rightarrow> string \<Rightarrow> member" where
  "tests_get w key = lookup (Object_prototype_end w) (heap w) (agg_tests (self w)) key"

definition suites_get :: "world \<Rightarrow> string \<Rightarrow> member" where
  "suites_get w key = lookup (Object_prototype_end w) (heap w) (agg_suites (self w)) key"

fun is_truthy :: "member \<Rightarrow> bool" where
  "is_truthy (Record r) = True"
| "is_truthy (Value v) = truthy v"

text \<open>
  A method call on the object a reference names: \<open>call\<close> for the three methods
  that touch the record only, \<open>call_env\<close> for \<^verbatim>\<open>addHookEnd\<close>.
\<close>

definition call :: "ref \<Rightarrow> (Data \<Rightarrow> error option \<times> Data) \<Rightarrow> world \<Rightarrow> error option \<times> world" where
  "call r m w = (case m (heap w r) of (e, d) \<Rightarrow> (e, w\<lparr>heap := (heap w)(r := d)\<rparr>))"

definition call_env ::
    "ref \<Rightarrow> (int option \<Rightarrow> Data \<Rightarrow> error option \<times> Data \<times> int option) \<Rightarrow> world \<Rightarrow>
     error option \<times> world" where
  "call_env r m w =
     (case m (Object_prototype_end w) (heap w r) of
        (e, d, protoEnd) \<Rightarrow> (e, w\<lparr>heap := (heap w)(r := d), Object_prototype_end := protoEnd\<rparr>))"

text \<open>A caller's method call on a record it holds a reference to.\<close>

fun invoke_at :: "ref \<Rightarrow> method_call \<Rightarrow> world \<Rightarrow> error option \<times> world" where
  "invoke_at r (SetTerminalState state) w = call r (setTerminalState state) w"
| "invoke_at r (AddHookStart now hookUID) w = call r (addHookStart now hookUID) w"
| "invoke_at r (AddHookEnd now hookUID) w = call_env r (addHookEnd now hookUID) w"
| "invoke_at r (SetEndTime v) w = call r (setEndTime v) w"

text \<open>
  \<^verbatim>\<open>obj[key].method(...)\<close>: the method call on what the read found. Only a
  \<^verbatim>\<open>Data\<close> object has the four methods: on \<^verbatim>\<open>undefined\<close> and \<^verbatim>\<open>null\<close>
  the property read throws \<^verbatim>\<open>TypeError\<close>, and on every other value the property
  is not a function and the call throws \<^verbatim>\<open>TypeError\<close>.
\<close>

definition send :: "member \<Rightarrow> (ref \<Rightarrow> world \<Rightarrow> error option \<times> world) \<Rightarrow> world \<Rightarrow> error option \<times> world" where
  "send v m w = (case v of Record r \<Rightarrow> m r w | Value _ \<Rightarrow> (Some TypeError, w))"

subsection \<open>Events\<close>

text \<open>
  The payload of a suite or test event is read only through \<^verbatim>\<open>.uid\<close> and is
  represented by it. A hook payload may be missing, may lack \<^verbatim>\<open>ctx\<close>, and its
  \<^verbatim>\<open>ctx\<close> may lack \<^verbatim>\<open>currentTest\<close>; \<open>currentTest\<close> is the uid of the
  current test, which is falsy when it is the empty string.
\<close>

datatype hook_ctx = Context (currentTest: "string option")

datatype hook = Hook (uid: string) (ctx: "hook_ctx option")

datatype event =
    EvStart
  | EvEnd
  | EvSuite string
  | EvSuiteEnd string
  | EvTest string
  | EvTestEnd string
  | EvHook "hook option"
  | EvHookEnd "hook option"
  | EvPass string
  | EvFail string
  | EvPending string

text \<open>
  The handlers the constructor registers, by event. The first argument is the clock
  reading of the handler's \<^verbatim>\<open>new Date()\<close>. Every handler that throws does so
  before it has written anything.
\<close>

fun on :: "int \<Rightarrow> event \<Rightarrow> world \<Rightarrow> error option \<times> world" where
  "on now EvStart w = (None, w\<lparr>self := (self w)\<lparr>agg_start := Some now\<rparr>\<rparr>)"
| "on now EvEnd w = (None, w\<lparr>self := (self w)\<lparr>agg_end := Some now\<rparr>\<rparr>)"
| "on now (EvSuite suite_uid) w =
     (case new_Data now w of (r, w') \<Rightarrow>
        (None, w'\<lparr>self := (self w')\<lparr>agg_suites := (agg_suites (self w'))(suite_uid \<mapsto> r)\<rparr>\<rparr>))"
| "on now (EvSuiteEnd suite_uid) w =
     send (suites_get w suite_uid) (\<lambda>r. call r (setEndTime (JDate (Date now)))) w"
| "on now (EvTest test_uid) w =
     (case new_Data now w of (r, w') \<Rightarrow>
        (None, w'\<lparr>self := (self w')\<lparr>agg_tests := (agg_tests (self w'))(test_uid \<mapsto> r)\<rparr>\<rparr>))"
| "on now (EvTestEnd test_uid) w =
     send (tests_get w test_uid) (\<lambda>r. call r (setEndTime (JDate (Date now)))) w"
| "on now (EvHook hook) w =
     (case hook of
        None \<Rightarrow> (None, w)
      | Some h \<Rightarrow>
          (case ctx h of
             None \<Rightarrow> (None, w)
           | Some c \<Rightarrow>
               (case currentTest c of
                  None \<Rightarrow> (None, w)
                | Some test_uid \<Rightarrow>
                    if test_uid = [] then (None, w)
                    else send (tests_get w test_uid) (\<lambda>r. call r (addHookStart now (uid h))) w)))"
| "on now (EvHookEnd hook) w =
     (case hook of
        None \<Rightarrow> (None, w)
      | Some h \<Rightarrow>
          (case ctx h of
             None \<Rightarrow> (None, w)
           | Some c \<Rightarrow>
               (case currentTest c of
                  None \<Rightarrow> (None, w)
                | Some test_uid \<Rightarrow>
                    if test_uid = [] then (None, w)
                    else send (tests_get w test_uid)
                           (\<lambda>r. call_env r (addHookEnd now (uid h))) w)))"
| "on now (EvPass test_uid) w =
     send (tests_get w test_uid) (\<lambda>r. call r (setTerminalState SUCCESS)) w"
| "on now (EvFail test_uid) w =
     (if is_truthy (tests_get w test_uid)
      then send (tests_get w test_uid) (\<lambda>r. call r (setTerminalState ERROR)) w
      else (None, w))"
| "on now (EvPending test_uid) w =
     send (tests_get w test_uid) (\<lambda>r. call r (setTerminalState SKIP)) w"

text \<open>
  A run: the engine emits events one after the other, each with its clock reading.
  The state after a handler that threw is the state it left, so whether the engine
  goes on after an exception or stops, the state it is in is the state after the
  events emitted so far.
\<close>

definition emit :: "(int \<times> event) list \<Rightarrow> world \<Rightarrow> world" where
  "emit evs w = foldl (\<lambda>w (now, e). snd (on now e w)) w evs"

subsection \<open>Queries\<close>

text \<open>The two lookups return what the read found unless it is falsy.\<close>

definition getTestData :: "string \<Rightarrow> world \<Rightarrow> error + member" where
  "getTestData u w =
     (if \<not> is_truthy (tests_get w u) then Inl (Error ''uid is invalid for tests'')
      else Inr (tests_get w u))"

definition getSuiteData :: "string \<Rightarrow> world \<Rightarrow> error + member" where
  "getSuiteData u w =
     (if \<not> is_truthy (suites_get w u) then Inl (Error ''uid is invalid for suites'')
      else Inr (suites_get w u))"

text \<open>\<^verbatim>\<open>total += data.getIsError()\<close> adds the boolean as 0 or 1.\<close>

definition getNumberOfErrors :: "world \<Rightarrow> error + int" where
  "getNumberOfErrors w =
     for_of (PlainObject (agg_tests (self w)))
       (\<lambda>data total. total + (if getIsError (heap w data) then 1 else 0)) 0"

definition getNumberOfSkips :: "world \<Rightarrow> error + int" where
  "getNumberOfSkips w =
     for_of (PlainObject (agg_tests (self w)))
       (\<lambda>data total. total + (if getIsSkip (heap w data) then 1 else 0)) 0"

definition getNumberOfSuccesses :: "world \<Rightarrow> error + int" where
  "getNumberOfSuccesses w =
     for_of (PlainObject (agg_tests (self w)))
       (\<lambda>data total. total + (if getIsSuccess (heap w data) then 1 else 0)) 0"

text \<open>
  \<^verbatim>\<open>this._end == null\<close> holds for \<^verbatim>\<open>undefined\<close>. A date minus
  \<^verbatim>\<open>undefined\<close> is \<^verbatim>\<open>NaN\<close>.
\<close>

definition getTotalDuration :: "world \<Rightarrow> js_value" where
  "getTotalDuration w =
     (case agg_end (self w) of
        None \<Rightarrow> JNull
      | Some e \<Rightarrow> (case agg_start (self w) of None \<Rightarrow> JNaN | Some s \<Rightarrow> JNumber (e - s)))"

section \<open>Runs\<close>

text \<open>
  What a run says about one test uid, read off the events alone. \<open>lastOutcome u evs\<close>
  is the state named by the last \<^verbatim>\<open>pass\<close>, \<^verbatim>\<open>fail\<close> or \<^verbatim>\<open>pending\<close>
  event for \<open>u\<close> that came after the last \<^verbatim>\<open>test\<close> event for \<open>u\<close>, and
  \<^verbatim>\<open>null\<close> when there is none; \<open>outcomeSeen u evs\<close> says that there is one.
  \<open>lastTime ev evs\<close> is the clock reading of the last occurrence of \<open>ev\<close>.
\<close>

fun out_step :: "string \<Rightarrow> js_value \<Rightarrow> event \<Rightarrow> js_value" where
  "out_step u v (EvTest t) = (if t = u then JNull else v)"
| "out_step u v (EvPass t) = (if t = u then SUCCESS else v)"
| "out_step u v (EvFail t) = (if t = u then ERROR else v)"
| "out_step u v (EvPending t) = (if t = u then SKIP else v)"
| "out_step u v _ = v"

definition lastOutcome :: "string \<Rightarrow> (int \<times> event) list \<Rightarrow> js_value" where
  "lastOutcome u evs = foldl (\<lambda>v (now, e). out_step u v e) JNull evs"

definition outcomeSeen :: "string \<Rightarrow> (int \<times> event) list \<Rightarrow> bool" where
  "outcomeSeen u evs = (lastOutcome u evs \<noteq> JNull)"

definition lastTime :: "event \<Rightarrow> (int \<times> event) list \<Rightarrow> int option" where
  "lastTime ev evs = foldl (\<lambda>t (now, e). if e = ev then Some now else t) None evs"

text \<open>
  \<open>hookTarget\<close> is the condition the two hook handlers test, with the test uid
  and the hook uid it lets through. \<open>hooksStarted u evs\<close> lists the hook uids of
  the \<^verbatim>\<open>hook\<close> events whose current test is \<open>u\<close>, in the order of the events,
  beginning anew at each \<^verbatim>\<open>test\<close> event for \<open>u\<close>.
\<close>

fun hookTarget :: "hook option \<Rightarrow> (string \<times> string) option" where
  "hookTarget None = None"
| "hookTarget (Some h) =
     (case ctx h of
        None \<Rightarrow> None
      | Some c \<Rightarrow>
          (case currentTest c of
             None \<Rightarrow> None
           | Some test_uid \<Rightarrow> if test_uid = [] then None else Some (test_uid, uid h)))"

fun order_step :: "string \<Rightarrow> string list \<Rightarrow> event \<Rightarrow> string list" where
  "order_step u hs (EvTest t) = (if t = u then [] else hs)"
| "order_step u hs (EvHook hook) =
     (case hookTarget hook of
        None \<Rightarrow> hs
      | Some (t, h) \<Rightarrow> if t = u then hs @ [h] else hs)"
| "order_step u hs _ = hs"

definition hooksStarted :: "string \<Rightarrow> (int \<times> event) list \<Rightarrow> string list" where
  "hooksStarted u evs = foldl (\<lambda>hs (now, e). order_step u hs e) [] evs"


section \<open>Reads and method calls\<close>

lemma lookup_Record_iff: "lookup protoEnd h obj key = Record r \<longleftrightarrow> obj key = Some r"
  by (simp add: lookup_def split: option.splits)

lemma tests_get_own [simp]: "agg_tests (self w) u = Some r \<Longrightarrow> tests_get w u = Record r"
  by (simp add: tests_get_def lookup_def)

lemma suites_get_own [simp]: "agg_suites (self w) u = Some r \<Longrightarrow> suites_get w u = Record r"
  by (simp add: suites_get_def lookup_def)

lemma send_Record [simp]: "send (Record r) m w = m r w"
  by (simp add: send_def)

lemma send_Value [simp]: "send (Value v) m w = (Some TypeError, w)"
  by (simp add: send_def)

lemma send_tests_get:
  "send (tests_get w u) m w =
     (case agg_tests (self w) u of Some r \<Rightarrow> m r w | None \<Rightarrow> (Some TypeError, w))"
  by (simp add: send_def tests_get_def lookup_def split: option.splits)

lemma send_suites_get:
  "send (suites_get w u) m w =
     (case agg_suites (self w) u of Some r \<Rightarrow> m r w | None \<Rightarrow> (Some TypeError, w))"
  by (simp add: send_def suites_get_def lookup_def split: option.splits)

lemma addHookEnd_hookOrder: "hookOrder (fst (snd (addHookEnd now h protoEnd d))) = hookOrder d"
  by (simp add: addHookEnd_def split: hook_read.splits)

lemma addHookEnd_terminalState:
  "terminalState (fst (snd (addHookEnd now h protoEnd d))) = terminalState d"
  by (simp add: addHookEnd_def split: hook_read.splits)


lemma call_env_addHookEnd:
  "call_env r (addHookEnd now h) w =
     (fst (addHookEnd now h (Object_prototype_end w) (heap w r)),
      w\<lparr>heap := (heap w)(r := fst (snd (addHookEnd now h (Object_prototype_end w) (heap w r)))),
        Object_prototype_end := snd (snd (addHookEnd now h (Object_prototype_end w) (heap w r)))\<rparr>)"
  by (simp add: call_env_def split: prod.splits)

section \<open>What one handler changes\<close>

lemma emit_snoc: "emit (evs @ [(now, e)]) w = snd (on now e (emit evs w))"
  by (simp add: emit_def)

lemma lastOutcome_snoc: "lastOutcome u (evs @ [(now, e)]) = out_step u (lastOutcome u evs) e"
  by (simp add: lastOutcome_def)

lemma lastTime_snoc:
  "lastTime ev (evs @ [(now, e)]) = (if e = ev then Some now else lastTime ev evs)"
  by (simp add: lastTime_def)

lemma on_agg_end:
  "agg_end (self (snd (on now e w))) = (if e = EvEnd then Some now else agg_end (self w))"
  by (cases e)
    (simp_all add: send_tests_get send_suites_get call_def call_env_addHookEnd new_Data_def
      split: option.splits prod.splits)

lemma on_agg_start:
  "agg_start (self (snd (on now e w))) = (if e = EvStart then Some now else agg_start (self w))"
  by (cases e)
    (simp_all add: send_tests_get send_suites_get call_def call_env_addHookEnd new_Data_def
      split: option.splits prod.splits)

lemma on_agg_tests:
  "agg_tests (self (snd (on now e w))) =
     (case e of EvTest u \<Rightarrow> (agg_tests (self w))(u \<mapsto> nextRef w) | _ \<Rightarrow> agg_tests (self w))"
  by (cases e)
    (simp_all add: send_tests_get send_suites_get call_def call_env_addHookEnd new_Data_def
      split: option.splits prod.splits)


lemma on_nextRef:
  "nextRef (snd (on now e w)) =
     (case e of EvTest u \<Rightarrow> Suc (nextRef w) | EvSuite u \<Rightarrow> Suc (nextRef w) | _ \<Rightarrow> nextRef w)"
  by (cases e)
    (simp_all add: send_tests_get send_suites_get call_def call_env_addHookEnd new_Data_def
      split: option.splits prod.splits)

lemma on_terminalState:
  "terminalState (heap (snd (on now e w)) r) =
     (case e of
        EvTest u \<Rightarrow> if r = nextRef w then JNull else terminalState (heap w r)
      | EvSuite u \<Rightarrow> if r = nextRef w then JNull else terminalState (heap w r)
      | EvPass u \<Rightarrow> if agg_tests (self w) u = Some r then SUCCESS else terminalState (heap w r)
      | EvFail u \<Rightarrow> if agg_tests (self w) u = Some r then ERROR else terminalState (heap w r)
      | EvPending u \<Rightarrow> if agg_tests (self w) u = Some r then SKIP else terminalState (heap w r)
      | _ \<Rightarrow> terminalState (heap w r))"
  by (cases e)
    (auto simp: send_tests_get send_suites_get call_def call_env_addHookEnd new_Data_def
      Data_new_def setTerminalState_def setEndTime_def addHookStart_def addHookEnd_terminalState
      split: option.splits prod.splits)

lemma on_hookOrder:
  "hookOrder (heap (snd (on now e w)) r) =
     (case e of
        EvTest t \<Rightarrow> if r = nextRef w then [] else hookOrder (heap w r)
      | EvSuite t \<Rightarrow> if r = nextRef w then [] else hookOrder (heap w r)
      | EvHook hook \<Rightarrow>
          (case hookTarget hook of
             None \<Rightarrow> hookOrder (heap w r)
           | Some (t, h) \<Rightarrow>
               if agg_tests (self w) t = Some r then hookOrder (heap w r) @ [h]
               else hookOrder (heap w r))
      | _ \<Rightarrow> hookOrder (heap w r))"
proof (cases e)
  case (EvHook hook)
  then show ?thesis
    by (cases hook)
      (auto simp: send_tests_get call_def addHookStart_def split: option.splits prod.splits)
next
  case (EvHookEnd hook)
  then show ?thesis
    by (cases hook)
      (auto simp: send_tests_get call_env_addHookEnd addHookEnd_hookOrder
        split: option.splits prod.splits)
qed (auto simp: send_tests_get send_suites_get call_def new_Data_def Data_new_def
      setTerminalState_def setEndTime_def split: option.splits prod.splits)


lemma hooksStarted_snoc:
  "hooksStarted u (evs @ [(now, e)]) = order_step u (hooksStarted u evs) e"
  by (simp add: hooksStarted_def)

section \<open>What a run reaches\<close>

lemma emit_agg_end: "agg_end (self (emit evs Aggregator_new)) = lastTime EvEnd evs"
proof (induction evs rule: rev_induct)
  case Nil
  show ?case by (simp add: emit_def lastTime_def Aggregator_new_def)
next
  case (snoc x evs)
  obtain now e where x: "x = (now, e)" by (cases x)
  show ?case unfolding x emit_snoc lastTime_snoc on_agg_end using snoc by simp
qed

lemma emit_agg_start: "agg_start (self (emit evs Aggregator_new)) = lastTime EvStart evs"
proof (induction evs rule: rev_induct)
  case Nil
  show ?case by (simp add: emit_def lastTime_def Aggregator_new_def)
next
  case (snoc x evs)
  obtain now e where x: "x = (now, e)" by (cases x)
  show ?case unfolding x emit_snoc lastTime_snoc on_agg_start using snoc by simp
qed

lemma lastTime_None_iff: "lastTime ev evs = None \<longleftrightarrow> ev \<notin> snd ` set evs"
proof (induction evs rule: rev_induct)
  case Nil
  show ?case by (simp add: lastTime_def)
next
  case (snoc x evs)
  obtain now e where x: "x = (now, e)" by (cases x)
  show ?case unfolding x lastTime_snoc using snoc by auto
qed






text \<open>
  Every test record of a run was allocated before \<open>nextRef\<close>, no two uids share a
  record, and a record's \<^verbatim>\<open>terminalState\<close> is what the events say.
\<close>

lemma emit_tests_inv:
  "(\<forall>u r. agg_tests (self (emit evs Aggregator_new)) u = Some r \<longrightarrow>
       r < nextRef (emit evs Aggregator_new) \<and>
       terminalState (heap (emit evs Aggregator_new) r) = lastOutcome u evs) \<and>
   (\<forall>u u' r. agg_tests (self (emit evs Aggregator_new)) u = Some r \<and>
       agg_tests (self (emit evs Aggregator_new)) u' = Some r \<longrightarrow> u = u')"
proof (induction evs rule: rev_induct)
  case Nil
  show ?case by (simp add: emit_def Aggregator_new_def)
next
  case (snoc x evs)
  obtain now e where x: "x = (now, e)" by (cases x)
  define w where "w = emit evs Aggregator_new"
  have bound: "\<And>u r. agg_tests (self w) u = Some r \<Longrightarrow> r < nextRef w"
    and ts: "\<And>u r. agg_tests (self w) u = Some r \<Longrightarrow>
      terminalState (heap w r) = lastOutcome u evs"
    and inj: "\<And>u u' r. agg_tests (self w) u = Some r \<Longrightarrow>
      agg_tests (self w) u' = Some r \<Longrightarrow> u = u'"
    using snoc unfolding w_def by blast+
  have fresh: "\<And>u. agg_tests (self w) u \<noteq> Some (nextRef w)"
    using bound by fastforce
  show ?case
    unfolding x emit_snoc lastOutcome_snoc w_def [symmetric]
    unfolding on_agg_tests on_nextRef on_terminalState
    using bound ts inj fresh
    by (cases e) (auto simp: less_Suc_eq split: if_splits)
qed

text \<open>A test record's \<^verbatim>\<open>hookOrder\<close> is what the events say.\<close>

lemma emit_hooks_inv:
  "\<forall>u r. agg_tests (self (emit evs Aggregator_new)) u = Some r \<longrightarrow>
       hookOrder (heap (emit evs Aggregator_new) r) = hooksStarted u evs"
proof (induction evs rule: rev_induct)
  case Nil
  show ?case by (simp add: emit_def Aggregator_new_def)
next
  case (snoc x evs)
  obtain now e where x: "x = (now, e)" by (cases x)
  define w where "w = emit evs Aggregator_new"
  have bound: "\<And>u r. agg_tests (self w) u = Some r \<Longrightarrow> r < nextRef w"
    and inj: "\<And>u u' r. agg_tests (self w) u = Some r \<Longrightarrow>
      agg_tests (self w) u' = Some r \<Longrightarrow> u = u'"
    using emit_tests_inv [of evs] unfolding w_def by blast+
  have ho: "\<And>u r. agg_tests (self w) u = Some r \<Longrightarrow>
      hookOrder (heap w r) = hooksStarted u evs"
    using snoc unfolding w_def by blast
  have fresh: "\<And>u. agg_tests (self w) u \<noteq> Some (nextRef w)"
    using bound by fastforce
  show ?case
    unfolding x emit_snoc hooksStarted_snoc w_def [symmetric]
    unfolding on_agg_tests on_hookOrder
    using ho inj fresh
    by (cases e) (auto split: if_splits option.splits)
qed

lemma lastOutcome_range: "lastOutcome u evs \<in> {JNull, SUCCESS, ERROR, SKIP}"
proof (induction evs rule: rev_induct)
  case Nil
  show ?case by (simp add: lastOutcome_def)
next
  case (snoc x evs)
  obtain now e where x: "x = (now, e)" by (cases x)
  show ?case unfolding x lastOutcome_snoc using snoc by (cases e) auto
qed

text \<open>
  \<open>outcomeSeen\<close> in terms of the event list: some outcome event for \<open>u\<close> is
  followed by no \<^verbatim>\<open>test\<close> event for \<open>u\<close>.
\<close>

lemma split_snoc:
  "(pre @ x # post = evs @ [y]) \<longleftrightarrow>
     (post = [] \<and> pre = evs \<and> x = y) \<or> (\<exists>post'. post = post' @ [y] \<and> evs = pre @ x # post')"
  by (cases post rule: rev_cases) auto

lemma outcomeSeen_iff:
  "outcomeSeen u evs \<longleftrightarrow>
     (\<exists>pre now e post. evs = pre @ (now, e) # post \<and>
        e \<in> {EvPass u, EvFail u, EvPending u} \<and> EvTest u \<notin> snd ` set post)"
proof (induction evs rule: rev_induct)
  case Nil
  show ?case by (simp add: outcomeSeen_def lastOutcome_def)
next
  case (snoc x evs)
  obtain t ev where x: "x = (t, ev)" by (cases x)
  have step: "outcomeSeen u (evs @ [(t, ev)]) \<longleftrightarrow>
      (ev \<in> {EvPass u, EvFail u, EvPending u} \<or> (ev \<noteq> EvTest u \<and> outcomeSeen u evs))"
    unfolding outcomeSeen_def lastOutcome_snoc
    by (cases ev) (auto simp: SUCCESS_def ERROR_def SKIP_def)
  have rhs: "(\<exists>pre now e post. evs @ [(t, ev)] = pre @ (now, e) # post \<and>
        e \<in> {EvPass u, EvFail u, EvPending u} \<and> EvTest u \<notin> snd ` set post) \<longleftrightarrow>
      (ev \<in> {EvPass u, EvFail u, EvPending u} \<or>
       (ev \<noteq> EvTest u \<and> (\<exists>pre now e post. evs = pre @ (now, e) # post \<and>
        e \<in> {EvPass u, EvFail u, EvPending u} \<and> EvTest u \<notin> snd ` set post)))"
    (is "?L \<longleftrightarrow> ?R")
  proof
    assume ?L
    then obtain pre now e post where d: "pre @ (now, e) # post = evs @ [(t, ev)]"
      and o: "e \<in> {EvPass u, EvFail u, EvPending u}" and n: "EvTest u \<notin> snd ` set post"
      by metis
    from d [unfolded split_snoc] show ?R
    proof
      assume "post = [] \<and> pre = evs \<and> (now, e) = (t, ev)"
      with o show ?R by simp
    next
      assume "\<exists>post'. post = post' @ [(t, ev)] \<and> evs = pre @ (now, e) # post'"
      then obtain post' where p: "post = post' @ [(t, ev)]" "evs = pre @ (now, e) # post'"
        by blast
      with n have "ev \<noteq> EvTest u" "EvTest u \<notin> snd ` set post'" by auto
      with p o show ?R by blast
    qed
  next
    assume ?R
    then show ?L
    proof
      assume "ev \<in> {EvPass u, EvFail u, EvPending u}"
      then have "evs @ [(t, ev)] = evs @ (t, ev) # [] \<and>
        ev \<in> {EvPass u, EvFail u, EvPending u} \<and> EvTest u \<notin> snd ` set []"
        by simp
      then show ?L by blast
    next
      assume "ev \<noteq> EvTest u \<and> (\<exists>pre now e post. evs = pre @ (now, e) # post \<and>
        e \<in> {EvPass u, EvFail u, EvPending u} \<and> EvTest u \<notin> snd ` set post)"
      then obtain pre now e post where "ev \<noteq> EvTest u" "evs = pre @ (now, e) # post"
        "e \<in> {EvPass u, EvFail u, EvPending u}" "EvTest u \<notin> snd ` set post"
        by blast
      then have "evs @ [(t, ev)] = pre @ (now, e) # (post @ [(t, ev)]) \<and>
        e \<in> {EvPass u, EvFail u, EvPending u} \<and> EvTest u \<notin> snd ` set (post @ [(t, ev)])"
        by auto
      then show ?L by blast
    qed
  qed
  show ?case unfolding x step rhs using snoc by simp
qed

section \<open>Calls on one record\<close>

lemma invoke_all_snoc:
  "invoke_all (calls @ [c]) protoEnd d =
     snd (invoke c (snd (invoke_all calls protoEnd d)) (fst (invoke_all calls protoEnd d)))"
  by (simp add: invoke_all_def split: prod.splits)

lemma startedHooks_snoc:
  "startedHooks (calls @ [c]) =
     startedHooks calls @ (case c of AddHookStart now h \<Rightarrow> [h] | _ \<Rightarrow> [])"
  by (induction calls rule: startedHooks.induct) (auto split: method_call.splits)

lemma invoke_hookOrder:
  "hookOrder (fst (snd (invoke c protoEnd d))) =
     hookOrder d @ (case c of AddHookStart now h \<Rightarrow> [h] | _ \<Rightarrow> [])"
  by (cases c)
    (auto simp: setTerminalState_def addHookStart_def addHookEnd_hookOrder setEndTime_def
      split: option.splits js_value.splits)

lemma invoke_all_hookOrder:
  "hookOrder (fst (invoke_all calls protoEnd d)) = hookOrder d @ startedHooks calls"
proof (induction calls rule: rev_induct)
  case Nil
  show ?case by (simp add: invoke_all_def)
next
  case (snoc c calls)
  show ?case unfolding invoke_all_snoc startedHooks_snoc invoke_hookOrder using snoc by simp
qed

section \<open>Reads along the prototype chain, by example\<close>

text \<open>
  A \<^verbatim>\<open>test\<close> event named \<^verbatim>\<open>__proto__\<close> makes its record the prototype of
  \<^verbatim>\<open>_tests\<close>: the record is what \<^verbatim>\<open>_tests['__proto__']\<close> yields, and its
  fields and methods are found under their names.
\<close>

lemma test_named_proto:
  "getTestData ''__proto__'' (emit [(1, EvTest ''__proto__'')] Aggregator_new) = Inr (Record 0) \<and>
   getTestData ''start'' (emit [(1, EvTest ''__proto__'')] Aggregator_new) =
     Inr (Value (JDate (Date 1))) \<and>
   getTestData ''end'' (emit [(1, EvTest ''__proto__'')] Aggregator_new) =
     Inl (Error ''uid is invalid for tests'') \<and>
   getTestData ''getDuration'' (emit [(1, EvTest ''__proto__'')] Aggregator_new) =
     Inr (Value JFunction) \<and>
   on 2 (EvFail ''terminalState'') (emit [(1, EvTest ''__proto__'')] Aggregator_new) =
     (None, emit [(1, EvTest ''__proto__'')] Aggregator_new)"
  by (simp add: emit_def new_Data_def Aggregator_new_def getTestData_def tests_get_def lookup_def
      Data_get_def Data_new_def Data_prototype_methods_def)

text \<open>
  A \<^verbatim>\<open>hook end\<close> event for a hook named \<^verbatim>\<open>__proto__\<close> that was never
  started writes \<^verbatim>\<open>end\<close> on \<^verbatim>\<open>Object.prototype\<close> and throws nothing; from
  then on \<^verbatim>\<open>_tests['end']\<close> is that date. For a never-started hook named
  \<^verbatim>\<open>toString\<close> the method returns and the record is as before; for one named
  \<^verbatim>\<open>h9\<close> it throws.
\<close>

lemma hook_end_named_proto:
  "on 7 (EvHookEnd (Some (Hook ''__proto__'' (Some (Context (Some ''t1''))))))
     (emit [(1, EvTest ''t1'')] Aggregator_new) =
     (None, (emit [(1, EvTest ''t1'')] Aggregator_new)\<lparr>Object_prototype_end := Some 7\<rparr>) \<and>
   getTestData ''end'' (emit [(1, EvTest ''t1''),
     (7, EvHookEnd (Some (Hook ''__proto__'' (Some (Context (Some ''t1''))))))] Aggregator_new) =
     Inr (Value (JDate (Date 7))) \<and>
   addHookEnd 7 ''toString'' None (Data_new 1) = (None, Data_new 1, None) \<and>
   addHookEnd 7 ''h9'' None (Data_new 1) = (Some TypeError, Data_new 1, None)"
proof -
  have w: "emit [(1, EvTest ''t1'')] Aggregator_new =
      \<lparr>self = \<lparr>agg_suites = Map.empty, agg_tests = [''t1'' \<mapsto> 0], agg_start = None,
         agg_end = None\<rparr>,
       heap = (\<lambda>r. Data_new 0)(0 := Data_new 1), nextRef = 1, Object_prototype_end = None\<rparr>"
    by (simp add: emit_def new_Data_def Aggregator_new_def)
  have a: "on 7 (EvHookEnd (Some (Hook ''__proto__'' (Some (Context (Some ''t1''))))))
     (emit [(1, EvTest ''t1'')] Aggregator_new) =
     (None, (emit [(1, EvTest ''t1'')] Aggregator_new)\<lparr>Object_prototype_end := Some 7\<rparr>)"
    unfolding w
    by (simp add: call_env_def addHookEnd_def hooks_get_def Data_new_def)
  have e: "emit [(1, EvTest ''t1''),
      (7, EvHookEnd (Some (Hook ''__proto__'' (Some (Context (Some ''t1''))))))] Aggregator_new =
      snd (on 7 (EvHookEnd (Some (Hook ''__proto__'' (Some (Context (Some ''t1''))))))
        (emit [(1, EvTest ''t1'')] Aggregator_new))"
    by (simp add: emit_def)
  have b: "getTestData ''end'' (emit [(1, EvTest ''t1''),
     (7, EvHookEnd (Some (Hook ''__proto__'' (Some (Context (Some ''t1''))))))] Aggregator_new) =
     Inr (Value (JDate (Date 7)))"
    unfolding e a unfolding w
    by (simp add: getTestData_def tests_get_def lookup_def Object_prototype_get_def
        Object_prototype_methods_def)
  have c: "addHookEnd 7 ''toString'' None (Data_new 1) = (None, Data_new 1, None)"
    and d: "addHookEnd 7 ''h9'' None (Data_new 1) = (Some TypeError, Data_new 1, None)"
    by (simp_all add: addHookEnd_def hooks_get_def Data_new_def Object_prototype_get_def
        Object_prototype_methods_def)
  show ?thesis
    by (intro conjI) (rule a b c d)+
qed

section \<open>The claims\<close>

subsection \<open>Counting outcomes\<close>

text \<open>
  C1. The three counting queries are meant to count the records of \<^verbatim>\<open>_tests\<close> in
  the error, skip and success state, and to give 0 for an empty mapping. The code
  iterates the plain object \<^verbatim>\<open>_tests\<close> with \<^verbatim>\<open>for ... of\<close>: in every
  state of the Aggregator, the empty one included, each of the three queries throws
  \<^verbatim>\<open>TypeError\<close> and returns no number.
\<close>

theorem getNumberOf_throws:
  "getNumberOfErrors w = Inl TypeError \<and>
   getNumberOfSkips w = Inl TypeError \<and>
   getNumberOfSuccesses w = Inl TypeError \<and>
   getNumberOfErrors Aggregator_new = Inl TypeError \<and>
   getNumberOfSkips Aggregator_new \<noteq> Inr 0 \<and>
   getNumberOfSuccesses Aggregator_new \<noteq> Inr 0"
  by (simp add: getNumberOfErrors_def getNumberOfSkips_def getNumberOfSuccesses_def)

subsection \<open>Orphan events\<close>




subsection \<open>Outcome flags\<close>

text \<open>
  C3. After any run of events on a fresh Aggregator, take the record \<open>d\<close> that
  \<^verbatim>\<open>_tests\<close> holds for a uid \<open>u\<close>. If no pass, fail or pending event for
  \<open>u\<close> has been processed since the test event that created the record,
  \<^verbatim>\<open>getIsError\<close>, \<^verbatim>\<open>getIsSkip\<close> and \<^verbatim>\<open>getIsSuccess\<close> are all
  false; if one has, exactly one of the three is true.
\<close>

theorem outcome_flags:
  assumes "agg_tests (self (emit evs Aggregator_new)) u = Some r"
    and "d = heap (emit evs Aggregator_new) r"
  shows "if outcomeSeen u evs
         then (getIsError d \<and> \<not> getIsSkip d \<and> \<not> getIsSuccess d) \<or>
              (\<not> getIsError d \<and> getIsSkip d \<and> \<not> getIsSuccess d) \<or>
              (\<not> getIsError d \<and> \<not> getIsSkip d \<and> getIsSuccess d)
         else \<not> getIsError d \<and> \<not> getIsSkip d \<and> \<not> getIsSuccess d"
proof -
  have "terminalState d = lastOutcome u evs"
    using assms emit_tests_inv [of evs] by blast
  then show ?thesis
    using lastOutcome_range [of u evs]
    by (auto simp: outcomeSeen_def getIsError_def getIsSkip_def getIsSuccess_def
        ERROR_def SKIP_def SUCCESS_def)
qed

theorem outcome_flags_witness:
  "agg_tests (self (emit [(1, EvTest ''t1'')] Aggregator_new)) ''t1'' = Some 0 \<and>
   \<not> outcomeSeen ''t1'' [(1, EvTest ''t1'')] \<and>
   \<not> getIsError (heap (emit [(1, EvTest ''t1'')] Aggregator_new) 0) \<and>
   \<not> getIsSkip (heap (emit [(1, EvTest ''t1'')] Aggregator_new) 0) \<and>
   \<not> getIsSuccess (heap (emit [(1, EvTest ''t1'')] Aggregator_new) 0) \<and>
   agg_tests (self (emit [(1, EvTest ''t1''), (2, EvPending ''t1'')] Aggregator_new)) ''t1'' =
     Some 0 \<and>
   outcomeSeen ''t1'' [(1, EvTest ''t1''), (2, EvPending ''t1'')] \<and>
   \<not> getIsError (heap (emit [(1, EvTest ''t1''), (2, EvPending ''t1'')] Aggregator_new) 0) \<and>
   getIsSkip (heap (emit [(1, EvTest ''t1''), (2, EvPending ''t1'')] Aggregator_new) 0) \<and>
   \<not> getIsSuccess (heap (emit [(1, EvTest ''t1''), (2, EvPending ''t1'')] Aggregator_new) 0)"
proof -
  have a: "agg_tests (self (emit [(1, EvTest ''t1'')] Aggregator_new)) ''t1'' = Some 0"
    by (simp add: emit_def new_Data_def Aggregator_new_def)
  have b: "agg_tests (self (emit [(1, EvTest ''t1''), (2, EvPending ''t1'')] Aggregator_new))
      ''t1'' = Some 0"
    by (simp add: emit_def new_Data_def Aggregator_new_def call_def setTerminalState_def
        split: prod.splits)
  have c: "\<not> outcomeSeen ''t1'' [(1, EvTest ''t1'')]"
    by (simp add: outcomeSeen_def lastOutcome_def)
  have e: "outcomeSeen ''t1'' [(1, EvTest ''t1''), (2, EvPending ''t1'')]"
    by (simp add: outcomeSeen_def lastOutcome_def SKIP_def)
  have f: "getIsSkip (heap (emit [(1, EvTest ''t1''), (2, EvPending ''t1'')] Aggregator_new) 0)"
    by (simp add: emit_def new_Data_def Aggregator_new_def call_def setTerminalState_def
        getIsSkip_def split: prod.splits)
  show ?thesis
    using outcome_flags [OF a refl] outcome_flags [OF b refl] a b c e f by simp
qed

subsection \<open>Total duration\<close>

text \<open>
  C4. After any run of events on a fresh Aggregator, \<^verbatim>\<open>getTotalDuration\<close> returns
  \<^verbatim>\<open>null\<close> when the run holds no \<^verbatim>\<open>end\<close> event; when it holds one, the
  result is the clock reading of the last \<^verbatim>\<open>end\<close> event minus that of the last
  \<^verbatim>\<open>start\<close> event (and, \<^verbatim>\<open>_start\<close> being \<^verbatim>\<open>undefined\<close> in a run with
  no \<^verbatim>\<open>start\<close> event, the value of that subtraction is then \<^verbatim>\<open>NaN\<close>).
\<close>

theorem getTotalDuration_run:
  "(EvEnd \<notin> snd ` set evs \<longrightarrow> getTotalDuration (emit evs Aggregator_new) = JNull) \<and>
   (\<forall>e. lastTime EvEnd evs = Some e \<longrightarrow>
      getTotalDuration (emit evs Aggregator_new) =
        (case lastTime EvStart evs of None \<Rightarrow> JNaN | Some s \<Rightarrow> JNumber (e - s)))"
  using lastTime_None_iff [of EvEnd evs]
  by (auto simp: getTotalDuration_def emit_agg_end emit_agg_start)

theorem getTotalDuration_run_witness:
  "EvEnd \<notin> snd ` set [(10, EvStart), (12, EvSuite ''s1'')] \<and>
   getTotalDuration (emit [(10, EvStart), (12, EvSuite ''s1'')] Aggregator_new) = JNull \<and>
   lastTime EvEnd [(10, EvStart), (12, EvSuite ''s1''), (25, EvEnd)] = Some 25 \<and>
   getTotalDuration (emit [(10, EvStart), (12, EvSuite ''s1''), (25, EvEnd)] Aggregator_new) =
     JNumber 15"
  using getTotalDuration_run [of "[(10, EvStart), (12, EvSuite ''s1'')]"]
    getTotalDuration_run [of "[(10, EvStart), (12, EvSuite ''s1''), (25, EvEnd)]"]
  by (simp add: lastTime_def)

subsection \<open>Terminal state values\<close>

text \<open>
  C5. For every record and every value other than the three recognised ones,
  \<^verbatim>\<open>setTerminalState\<close> throws its error and leaves the record as it was, also
  when it is called on a record in the store; for each of the three recognised
  values it returns and stores that value.
\<close>

theorem setTerminalState_validates:
  "(state \<notin> {SUCCESS, ERROR, SKIP} \<longrightarrow>
      setTerminalState state d = (Some (Error ''state must be a valid terminalState''), d) \<and>
      call r (setTerminalState state) w =
        (Some (Error ''state must be a valid terminalState''), w)) \<and>
   (state \<in> {SUCCESS, ERROR, SKIP} \<longrightarrow>
      setTerminalState state d = (None, d\<lparr>terminalState := state\<rparr>) \<and>
      terminalState (snd (setTerminalState state d)) = state)"
  by (auto simp: setTerminalState_def call_def)

theorem setTerminalState_validates_witness:
  "JString ''bogus'' \<notin> {SUCCESS, ERROR, SKIP} \<and>
   setTerminalState (JString ''bogus'') (Data_new 7) =
     (Some (Error ''state must be a valid terminalState''), Data_new 7) \<and>
   call 0 (setTerminalState (JString ''bogus'')) Aggregator_new =
     (Some (Error ''state must be a valid terminalState''), Aggregator_new) \<and>
   JString ''skip'' \<in> {SUCCESS, ERROR, SKIP} \<and>
   terminalState (snd (setTerminalState (JString ''skip'') (Data_new 7))) = JString ''skip''"
  using setTerminalState_validates [of "JString ''bogus''" "Data_new 7" 0 Aggregator_new]
    setTerminalState_validates [of "JString ''skip''" "Data_new 7" 0 Aggregator_new]
  by (simp add: SUCCESS_def ERROR_def SKIP_def)

subsection \<open>Lookup by uid\<close>




subsection \<open>Hook order\<close>

text \<open>
  C7. \<^verbatim>\<open>addHookStart(hookUID)\<close> returns, stores a fresh sub-record (its start the
  clock reading, no end) under \<open>hookUID\<close>, replacing the one that was there and
  leaving every other hook's sub-record alone, and appends \<open>hookUID\<close> to
  \<^verbatim>\<open>hookOrder\<close>, a duplicate included. \<^verbatim>\<open>addHookEnd\<close> never changes
  \<^verbatim>\<open>hookOrder\<close>; so after any sequence of method calls on a record,
  \<^verbatim>\<open>hookOrder\<close> is what it was, followed by the uids of the
  \<^verbatim>\<open>addHookStart\<close> calls in call order. In the Aggregator, after any run of
  events on a fresh one, the \<^verbatim>\<open>hookOrder\<close> of the record of a test \<open>u\<close> lists
  the hooks started for \<open>u\<close> since its \<^verbatim>\<open>test\<close> event, in the order of their
  \<^verbatim>\<open>hook\<close> events, whatever \<^verbatim>\<open>hook end\<close> events came between.
\<close>

theorem addHookStart_order:
  "addHookStart now h d =
     (None, d\<lparr>hooks := (hooks d)(h \<mapsto> \<lparr>hook_start = now, hook_end = None\<rparr>),
               hookOrder := hookOrder d @ [h]\<rparr>) \<and>
   hooks (snd (addHookStart now h d)) h = Some \<lparr>hook_start = now, hook_end = None\<rparr> \<and>
   (\<forall>h'. h' \<noteq> h \<longrightarrow> hooks (snd (addHookStart now h d)) h' = hooks d h') \<and>
   hookOrder (snd (addHookStart now h d)) = hookOrder d @ [h] \<and>
   hookOrder (fst (snd (addHookEnd now' h' protoEnd d))) = hookOrder d \<and>
   hookOrder (fst (invoke_all calls protoEnd d)) = hookOrder d @ startedHooks calls \<and>
   (\<forall>r. agg_tests (self (emit evs Aggregator_new)) u = Some r \<longrightarrow>
      hookOrder (heap (emit evs Aggregator_new) r) = hooksStarted u evs)"
  using emit_hooks_inv [of evs]
  by (simp add: invoke_all_hookOrder addHookStart_def addHookEnd_hookOrder)

theorem addHookStart_order_witness:
  "hookOrder (fst (invoke_all [AddHookStart 2 ''h1'', AddHookStart 3 ''h2'', AddHookEnd 4 ''h2'',
      AddHookEnd 6 ''h1''] None (Data_new 1))) = [''h1'', ''h2''] \<and>
   hooks (fst (invoke_all [AddHookStart 2 ''h1'', AddHookStart 3 ''h2'', AddHookEnd 4 ''h2'',
      AddHookEnd 6 ''h1''] None (Data_new 1))) ''h1'' =
      Some \<lparr>hook_start = 2, hook_end = Some 6\<rparr> \<and>
   hooks (fst (invoke_all [AddHookStart 2 ''h1'', AddHookStart 3 ''h2'', AddHookEnd 4 ''h2'',
      AddHookEnd 6 ''h1''] None (Data_new 1))) ''h2'' =
      Some \<lparr>hook_start = 3, hook_end = Some 4\<rparr> \<and>
   hookOrder (fst (invoke_all [AddHookStart 2 ''h1'', AddHookEnd 4 ''h1'', AddHookStart 5 ''h1'']
      None (Data_new 1))) = [''h1'', ''h1''] \<and>
   hooks (fst (invoke_all [AddHookStart 2 ''h1'', AddHookEnd 4 ''h1'', AddHookStart 5 ''h1'']
      None (Data_new 1))) ''h1'' = Some \<lparr>hook_start = 5, hook_end = None\<rparr> \<and>
   agg_tests (self (emit [(1, EvTest ''t1''),
      (2, EvHook (Some (Hook ''h1'' (Some (Context (Some ''t1'')))))),
      (3, EvHook (Some (Hook ''h2'' (Some (Context (Some ''t1'')))))),
      (4, EvHookEnd (Some (Hook ''h2'' (Some (Context (Some ''t1'')))))),
      (6, EvHookEnd (Some (Hook ''h1'' (Some (Context (Some ''t1''))))))] Aggregator_new))
      ''t1'' = Some 0 \<and>
   hookOrder (heap (emit [(1, EvTest ''t1''),
      (2, EvHook (Some (Hook ''h1'' (Some (Context (Some ''t1'')))))),
      (3, EvHook (Some (Hook ''h2'' (Some (Context (Some ''t1'')))))),
      (4, EvHookEnd (Some (Hook ''h2'' (Some (Context (Some ''t1'')))))),
      (6, EvHookEnd (Some (Hook ''h1'' (Some (Context (Some ''t1''))))))] Aggregator_new) 0) =
      [''h1'', ''h2'']"
proof -
  define evs where "evs = [(1::int, EvTest ''t1''),
      (2, EvHook (Some (Hook ''h1'' (Some (Context (Some ''t1'')))))),
      (3, EvHook (Some (Hook ''h2'' (Some (Context (Some ''t1'')))))),
      (4, EvHookEnd (Some (Hook ''h2'' (Some (Context (Some ''t1'')))))),
      (6, EvHookEnd (Some (Hook ''h1'' (Some (Context (Some ''t1''))))))]"
  define c1 where "c1 = [AddHookStart 2 ''h1'', AddHookStart 3 ''h2'', AddHookEnd 4 ''h2'',
      AddHookEnd 6 ''h1'']"
  define c2 where "c2 = [AddHookStart 2 ''h1'', AddHookEnd 4 ''h1'', AddHookStart 5 ''h1'']"
  have r: "agg_tests (self (emit evs Aggregator_new)) ''t1'' = Some 0"
    unfolding evs_def
    by (simp add: emit_def new_Data_def Aggregator_new_def call_def call_env_addHookEnd
        addHookStart_def addHookEnd_def hooks_get_def Data_new_def)
  have a: "hooks (fst (invoke_all c1 None (Data_new 1))) ''h1'' =
      Some \<lparr>hook_start = 2, hook_end = Some 6\<rparr>"
    and b: "hooks (fst (invoke_all c1 None (Data_new 1))) ''h2'' =
      Some \<lparr>hook_start = 3, hook_end = Some 4\<rparr>"
    and c: "hooks (fst (invoke_all c2 None (Data_new 1))) ''h1'' =
      Some \<lparr>hook_start = 5, hook_end = None\<rparr>"
    unfolding c1_def c2_def
    by (simp_all add: invoke_all_def addHookStart_def addHookEnd_def hooks_get_def Data_new_def)
  note th1 = addHookStart_order [of 0 "''h''" "Data_new 1" 0 "''h''" None c1 evs "''t1''"]
  note th2 = addHookStart_order [of 0 "''h''" "Data_new 1" 0 "''h''" None c2 "[]" "''t1''"]
  have o1: "hookOrder (fst (invoke_all c1 None (Data_new 1))) = [''h1'', ''h2'']"
    using th1 by (simp add: Data_new_def c1_def)
  have o2: "hookOrder (fst (invoke_all c2 None (Data_new 1))) = [''h1'', ''h1'']"
    using th2 by (simp add: Data_new_def c2_def)
  have o3: "hookOrder (heap (emit evs Aggregator_new) 0) = [''h1'', ''h2'']"
    using th1 r by (simp add: hooksStarted_def evs_def)
  show ?thesis
    using o1 o2 o3 a b c r unfolding evs_def c1_def c2_def
    by (intro conjI)
qed

subsection \<open>End time and duration\<close>

text \<open>
  C8, as stated, fails. An Invalid Date (\<^verbatim>\<open>new Date(NaN)\<close>) is not a valid
  timestamp, yet it is a \<^verbatim>\<open>Date\<close> instance: \<^verbatim>\<open>setEndTime\<close> does not throw
  and stores it, and \<^verbatim>\<open>getDuration\<close> is \<^verbatim>\<open>NaN\<close> from then on.
\<close>

theorem setEndTime_invalid_date_counterexample:
  "setEndTime (JDate InvalidDate) (Data_new 1) =
     (None, (Data_new 1)\<lparr>end' := Some InvalidDate\<rparr>) \<and>
   getDuration (snd (setEndTime (JDate InvalidDate) (Data_new 1))) = JNaN"
  by (simp add: setEndTime_def getDuration_def Data_new_def)

text \<open>
  C8, as amended. \<^verbatim>\<open>setEndTime\<close> throws its error, the record as before, for
  every argument that is not a \<^verbatim>\<open>Date\<close> instance, and stores every
  \<^verbatim>\<open>Date\<close> instance as the record's end, an invalid one included.
  \<^verbatim>\<open>getDuration\<close> returns \<^verbatim>\<open>null\<close> while the end is unset, as on a new
  record, and end minus start once it is set, which is \<^verbatim>\<open>NaN\<close> when the end is
  an invalid date. In the Aggregator, the record a \<^verbatim>\<open>suite\<close> or \<^verbatim>\<open>test\<close> event
  creates has no duration; a \<^verbatim>\<open>suite end\<close> or \<^verbatim>\<open>test end\<close> event for a uid
  that has a record is handled without an error, and the record's duration is then
  the event's clock reading minus the record's start.
\<close>

theorem setEndTime_getDuration:
  "((\<forall>t. v \<noteq> JDate t) \<longrightarrow>
      setEndTime v d = (Some (Error ''end must be an instanceof Date''), d)) \<and>
   setEndTime (JDate t) d = (None, d\<lparr>end' := Some t\<rparr>) \<and>
   getDuration (snd (setEndTime (JDate (Date e)) d)) = JNumber (e - start d) \<and>
   getDuration (snd (setEndTime (JDate InvalidDate) d)) = JNaN \<and>
   (end' d = None \<longrightarrow> getDuration d = JNull) \<and>
   (\<forall>e. end' d = Some (Date e) \<longrightarrow> getDuration d = JNumber (e - start d)) \<and>
   (end' d = Some InvalidDate \<longrightarrow> getDuration d = JNaN) \<and>
   getDuration (Data_new s) = JNull \<and>
   getDuration (heap (snd (on now (EvSuite u) w)) (nextRef w)) = JNull \<and>
   getDuration (heap (snd (on now (EvTest u) w)) (nextRef w)) = JNull \<and>
   (\<forall>r. agg_suites (self w) u = Some r \<longrightarrow>
      fst (on now (EvSuiteEnd u) w) = None \<and>
      getDuration (heap (snd (on now (EvSuiteEnd u) w)) r) = JNumber (now - start (heap w r))) \<and>
   (\<forall>r. agg_tests (self w) u = Some r \<longrightarrow>
      fst (on now (EvTestEnd u) w) = None \<and>
      getDuration (heap (snd (on now (EvTestEnd u) w)) r) = JNumber (now - start (heap w r)))"
  by (cases v)
    (simp_all add: setEndTime_def getDuration_def Data_new_def call_def new_Data_def)

theorem setEndTime_getDuration_witness:
  "setEndTime (JNumber 4) (Data_new 1) =
     (Some (Error ''end must be an instanceof Date''), Data_new 1) \<and>
   getDuration (snd (setEndTime (JNumber 4) (Data_new 1))) = JNull \<and>
   setEndTime (JDate (Date 4)) (Data_new 1) = (None, (Data_new 1)\<lparr>end' := Some (Date 4)\<rparr>) \<and>
   getDuration (snd (setEndTime (JDate (Date 4)) (Data_new 1))) = JNumber 3 \<and>
   agg_suites (self (emit [(0, EvSuite ''s1'')] Aggregator_new)) ''s1'' = Some 0 \<and>
   getDuration (heap (emit [(0, EvSuite ''s1'')] Aggregator_new) 0) = JNull \<and>
   getDuration (heap (snd (on 5 (EvSuiteEnd ''s1'') (emit [(0, EvSuite ''s1'')] Aggregator_new)))
     0) = JNumber 5"
proof -
  note th = setEndTime_getDuration [of "JNumber 4" "Data_new 1" "Date 4" 4 1 0 "''s1''"
      Aggregator_new]
  note th' = setEndTime_getDuration [of "JNumber 4" "Data_new 1" "Date 4" 4 1 5 "''s1''"
      "emit [(0, EvSuite ''s1'')] Aggregator_new"]
  have s: "agg_suites (self (emit [(0, EvSuite ''s1'')] Aggregator_new)) ''s1'' = Some 0"
    by (simp add: emit_def new_Data_def Aggregator_new_def)
  have s0: "start (heap (emit [(0, EvSuite ''s1'')] Aggregator_new) 0) = 0"
    by (simp add: emit_def new_Data_def Aggregator_new_def Data_new_def)
  have n: "emit [(0, EvSuite ''s1'')] Aggregator_new = snd (on 0 (EvSuite ''s1'') Aggregator_new)"
    by (simp add: emit_def)
  have z: "nextRef Aggregator_new = 0"
    by (simp add: Aggregator_new_def)
  have i: "\<forall>t. JNumber 4 \<noteq> JDate t"
    by simp
  have e: "start (Data_new 1) = 1"
    by (simp add: Data_new_def)
  have a: "setEndTime (JNumber 4) (Data_new 1) =
     (Some (Error ''end must be an instanceof Date''), Data_new 1)"
    using th i by blast
  have b: "setEndTime (JDate (Date 4)) (Data_new 1) =
     (None, (Data_new 1)\<lparr>end' := Some (Date 4)\<rparr>)"
    using th by blast
  have c0: "getDuration (snd (setEndTime (JDate (Date 4)) (Data_new 1))) =
      JNumber (4 - start (Data_new 1))"
    using th by blast
  have c: "getDuration (snd (setEndTime (JDate (Date 4)) (Data_new 1))) = JNumber 3"
    unfolding c0 e by simp
  have d: "getDuration (Data_new 1) = JNull"
    using th by blast
  have d': "getDuration (snd (setEndTime (JNumber 4) (Data_new 1))) = JNull"
    unfolding a using d by simp
  have f0: "getDuration (heap (snd (on 0 (EvSuite ''s1'') Aggregator_new))
      (nextRef Aggregator_new)) = JNull"
    using th by blast
  have f: "getDuration (heap (emit [(0, EvSuite ''s1'')] Aggregator_new) 0) = JNull"
    using f0 unfolding n z .
  have g0: "getDuration (heap (snd (on 5 (EvSuiteEnd ''s1'')
      (emit [(0, EvSuite ''s1'')] Aggregator_new))) 0) =
      JNumber (5 - start (heap (emit [(0, EvSuite ''s1'')] Aggregator_new) 0))"
    using th' s by blast
  have g: "getDuration (heap (snd (on 5 (EvSuiteEnd ''s1'')
      (emit [(0, EvSuite ''s1'')] Aggregator_new))) 0) = JNumber 5"
    unfolding g0 s0 by simp
  show ?thesis
    by (intro conjI) (rule a b c d' s f g)+
qed

subsection \<open>What a caller holds\<close>

text \<open>
  C9, as stated, fails. After a \<^verbatim>\<open>test\<close> event for \<^verbatim>\<open>t1\<close>, \<^verbatim>\<open>getTestData\<close>
  returns the reference the Aggregator itself holds; \<^verbatim>\<open>setTerminalState\<close> called
  on it by the caller, no event emitted, changes the state, and the Aggregator's record
  for \<^verbatim>\<open>t1\<close>, not an error before, is an error after.
\<close>

theorem handle_mutates_counterexample:
  "getTestData ''t1'' (emit [(1, EvTest ''t1'')] Aggregator_new) = Inr (Record 0) \<and>
   \<not> getIsError (heap (emit [(1, EvTest ''t1'')] Aggregator_new) 0) \<and>
   snd (call 0 (setTerminalState ERROR) (emit [(1, EvTest ''t1'')] Aggregator_new)) \<noteq>
     emit [(1, EvTest ''t1'')] Aggregator_new \<and>
   getTestData ''t1''
     (snd (call 0 (setTerminalState ERROR) (emit [(1, EvTest ''t1'')] Aggregator_new))) =
     Inr (Record 0) \<and>
   getIsError
     (heap (snd (call 0 (setTerminalState ERROR) (emit [(1, EvTest ''t1'')] Aggregator_new))) 0)"
proof -
  have neq: "w' \<noteq> w" if "getIsError (heap w' 0)" "\<not> getIsError (heap w 0)" for w w' :: world
    using that by auto
  have a: "\<not> getIsError (heap (emit [(1, EvTest ''t1'')] Aggregator_new) 0)"
    by (simp add: emit_def new_Data_def Aggregator_new_def Data_new_def getIsError_def ERROR_def)
  have b: "getIsError
     (heap (snd (call 0 (setTerminalState ERROR) (emit [(1, EvTest ''t1'')] Aggregator_new))) 0)"
    by (simp add: emit_def new_Data_def Aggregator_new_def Data_new_def getIsError_def
        call_def setTerminalState_def)
  have c: "getTestData ''t1'' (emit [(1, EvTest ''t1'')] Aggregator_new) = Inr (Record 0)"
    by (simp add: emit_def new_Data_def Aggregator_new_def getTestData_def)
  have d: "getTestData ''t1''
     (snd (call 0 (setTerminalState ERROR) (emit [(1, EvTest ''t1'')] Aggregator_new))) =
     Inr (Record 0)"
    by (simp add: emit_def new_Data_def Aggregator_new_def getTestData_def call_def
        setTerminalState_def)
  show ?thesis
    by (intro conjI) (rule a b c d neq [OF b a])+
qed

text \<open>
  C9, as amended. What \<^verbatim>\<open>getTestData\<close> or \<^verbatim>\<open>getSuiteData\<close> returns for a uid
  that has a record is the reference the mapping holds, not a copy. A method the
  caller invokes on it throws or returns as the method does on the record, and leaves
  in the store the record as the method left it, where the Aggregator's later queries
  find it. The call changes nothing else of the Aggregator: not the two mappings or
  the run's timestamps, not what is allocated, not the record of any other reference,
  and not the record the lookup returns for the uid. Outside the Aggregator,
  \<^verbatim>\<open>addHookEnd\<close> leaves \<^verbatim>\<open>Object.prototype.end\<close> as the method does, and the
  other three methods leave it alone.
\<close>

theorem handle_shares_record:
  assumes "getTestData u w = Inr (Record r) \<or> getSuiteData u w = Inr (Record r)"
  shows "(agg_tests (self w) u = Some r \<or> agg_suites (self w) u = Some r) \<and>
         fst (invoke_at r c w) = fst (invoke c (Object_prototype_end w) (heap w r)) \<and>
         heap (snd (invoke_at r c w)) =
           (heap w)(r := fst (snd (invoke c (Object_prototype_end w) (heap w r)))) \<and>
         Object_prototype_end (snd (invoke_at r c w)) =
           snd (snd (invoke c (Object_prototype_end w) (heap w r))) \<and>
         ((\<forall>now h. c \<noteq> AddHookEnd now h) \<longrightarrow>
            Object_prototype_end (snd (invoke_at r c w)) = Object_prototype_end w) \<and>
         self (snd (invoke_at r c w)) = self w \<and>
         nextRef (snd (invoke_at r c w)) = nextRef w \<and>
         (getTestData u w = Inr (Record r) \<longrightarrow>
            getTestData u (snd (invoke_at r c w)) = Inr (Record r)) \<and>
         (getSuiteData u w = Inr (Record r) \<longrightarrow>
            getSuiteData u (snd (invoke_at r c w)) = Inr (Record r))"
proof -
  have own: "agg_tests (self w) u = Some r" if "getTestData u w = Inr (Record r)"
    using that
    by (simp add: getTestData_def tests_get_def lookup_Record_iff split: if_splits)
  have own': "agg_suites (self w) u = Some r" if "getSuiteData u w = Inr (Record r)"
    using that
    by (simp add: getSuiteData_def suites_get_def lookup_Record_iff split: if_splits)
  have frame: "fst (invoke_at r c w) = fst (invoke c (Object_prototype_end w) (heap w r)) \<and>
      heap (snd (invoke_at r c w)) =
        (heap w)(r := fst (snd (invoke c (Object_prototype_end w) (heap w r)))) \<and>
      Object_prototype_end (snd (invoke_at r c w)) =
        snd (snd (invoke c (Object_prototype_end w) (heap w r))) \<and>
      ((\<forall>now h. c \<noteq> AddHookEnd now h) \<longrightarrow>
         Object_prototype_end (snd (invoke_at r c w)) = Object_prototype_end w) \<and>
      self (snd (invoke_at r c w)) = self w \<and>
      nextRef (snd (invoke_at r c w)) = nextRef w"
    by (cases c) (simp_all add: call_def call_env_addHookEnd split: prod.splits)
  have t: "getTestData u (snd (invoke_at r c w)) = Inr (Record r)"
    if "getTestData u w = Inr (Record r)"
    using own [OF that] frame by (simp add: getTestData_def)
  have s: "getSuiteData u (snd (invoke_at r c w)) = Inr (Record r)"
    if "getSuiteData u w = Inr (Record r)"
    using own' [OF that] frame by (simp add: getSuiteData_def)
  show ?thesis
    using assms own own' frame t s by blast
qed

theorem handle_shares_record_witness:
  "getTestData ''t1'' (emit [(1, EvTest ''t1'')] Aggregator_new) = Inr (Record 0) \<and>
   fst (invoke_at 0 (SetEndTime (JDate (Date 9))) (emit [(1, EvTest ''t1'')] Aggregator_new)) =
     None \<and>
   end' (heap (snd (invoke_at 0 (SetEndTime (JDate (Date 9)))
     (emit [(1, EvTest ''t1'')] Aggregator_new))) 0) = Some (Date 9) \<and>
   self (snd (invoke_at 0 (SetEndTime (JDate (Date 9)))
     (emit [(1, EvTest ''t1'')] Aggregator_new))) =
     self (emit [(1, EvTest ''t1'')] Aggregator_new)"
proof -
  have a: "getTestData ''t1'' (emit [(1, EvTest ''t1'')] Aggregator_new) = Inr (Record 0)"
    by (simp add: emit_def new_Data_def Aggregator_new_def getTestData_def)
  have b: "getTestData ''t1'' (emit [(1, EvTest ''t1'')] Aggregator_new) = Inr (Record 0) \<or>
           getSuiteData ''t1'' (emit [(1, EvTest ''t1'')] Aggregator_new) = Inr (Record 0)"
    using a by simp
  note th = handle_shares_record [OF b, of "SetEndTime (JDate (Date 9))"]
  have c1: "fst (invoke_at 0 (SetEndTime (JDate (Date 9)))
      (emit [(1, EvTest ''t1'')] Aggregator_new)) = None"
    using th by (simp add: setEndTime_def del: invoke_at.simps)
  have c2: "end' (heap (snd (invoke_at 0 (SetEndTime (JDate (Date 9)))
      (emit [(1, EvTest ''t1'')] Aggregator_new))) 0) = Some (Date 9)"
    using th by (simp add: setEndTime_def del: invoke_at.simps)
  have c3: "self (snd (invoke_at 0 (SetEndTime (JDate (Date 9)))
      (emit [(1, EvTest ''t1'')] Aggregator_new))) = self (emit [(1, EvTest ''t1'')] Aggregator_new)"
    using th by blast
  show ?thesis
    by (intro conjI) (rule a c1 c2 c3)+
qed

subsection \<open>A later outcome replaces an earlier one\<close>

text \<open>
  C10. On a record that already has a terminal state, \<^verbatim>\<open>setTerminalState\<close> with
  any of the three recognised values returns and stores the new value. So for a test
  that has a record, a \<^verbatim>\<open>pass\<close> event makes it a success, a later \<^verbatim>\<open>fail\<close>
  event is handled without an error and makes it an error and no longer a success,
  and a \<^verbatim>\<open>pending\<close> event after that makes it a skip.
\<close>

theorem setTerminalState_overwrites:
  "(terminalState d \<in> {SUCCESS, ERROR, SKIP} \<and> state \<in> {SUCCESS, ERROR, SKIP} \<longrightarrow>
      setTerminalState state d = (None, d\<lparr>terminalState := state\<rparr>) \<and>
      terminalState (snd (setTerminalState state d)) = state) \<and>
   (agg_tests (self w) u = Some r \<longrightarrow>
      getIsSuccess (heap (snd (on t1 (EvPass u) w)) r) \<and>
      fst (on t2 (EvFail u) (snd (on t1 (EvPass u) w))) = None \<and>
      getIsError (heap (snd (on t2 (EvFail u) (snd (on t1 (EvPass u) w)))) r) \<and>
      \<not> getIsSuccess (heap (snd (on t2 (EvFail u) (snd (on t1 (EvPass u) w)))) r) \<and>
      fst (on t3 (EvPending u) (snd (on t2 (EvFail u) (snd (on t1 (EvPass u) w))))) = None \<and>
      getIsSkip
        (heap (snd (on t3 (EvPending u) (snd (on t2 (EvFail u) (snd (on t1 (EvPass u) w)))))) r))"
  by (auto simp: setTerminalState_def call_def getIsSuccess_def getIsError_def getIsSkip_def
      SUCCESS_def ERROR_def SKIP_def)

theorem setTerminalState_overwrites_witness:
  "terminalState ((Data_new 1)\<lparr>terminalState := SUCCESS\<rparr>) \<in> {SUCCESS, ERROR, SKIP} \<and>
   ERROR \<in> {SUCCESS, ERROR, SKIP} \<and>
   setTerminalState ERROR ((Data_new 1)\<lparr>terminalState := SUCCESS\<rparr>) =
     (None, (Data_new 1)\<lparr>terminalState := ERROR\<rparr>) \<and>
   agg_tests (self (emit [(1, EvTest ''t1'')] Aggregator_new)) ''t1'' = Some 0 \<and>
   getIsSuccess (heap (snd (on 2 (EvPass ''t1'') (emit [(1, EvTest ''t1'')] Aggregator_new))) 0) \<and>
   getIsError (heap (snd (on 3 (EvFail ''t1'')
     (snd (on 2 (EvPass ''t1'') (emit [(1, EvTest ''t1'')] Aggregator_new))))) 0) \<and>
   \<not> getIsSuccess (heap (snd (on 3 (EvFail ''t1'')
     (snd (on 2 (EvPass ''t1'') (emit [(1, EvTest ''t1'')] Aggregator_new))))) 0)"
proof -
  have a: "agg_tests (self (emit [(1, EvTest ''t1'')] Aggregator_new)) ''t1'' = Some 0"
    by (simp add: emit_def new_Data_def Aggregator_new_def)
  show ?thesis
    using a
      setTerminalState_overwrites [of "(Data_new 1)\<lparr>terminalState := SUCCESS\<rparr>" ERROR
        "emit [(1, EvTest ''t1'')] Aggregator_new" "''t1''" 0 2 3 4]
    by (simp add: Data_new_def)
qed

end
